theory Spec2Isabelle
  imports Main
begin

section \<open>JavaScript values shared by the views\<close>

text \<open>
  Strings of the frontend are modelled as Isabelle strings. A state variable of type
  \<^verbatim>\<open>string | null\<close> is a \<^typ>\<open>string option\<close>, with \<^term>\<open>None\<close> for \<^verbatim>\<open>null\<close>.
  The test \<^verbatim>\<open>!x\<close> on such a variable holds for \<^verbatim>\<open>null\<close> and for the empty string.
\<close>

definition falsy :: "string option \<Rightarrow> bool" where
  "falsy v = (case v of None \<Rightarrow> True | Some s \<Rightarrow> s = [])"

text \<open>
  A value caught by \<^verbatim>\<open>catch (e)\<close> is either an \<^verbatim>\<open>Error\<close> object with its message, or any
  other value, kept as what \<^verbatim>\<open>String(e)\<close> renders. \<open>err_text\<close> is the expression
  \<^verbatim>\<open>e instanceof Error ? e.message : String(e)\<close>.
\<close>

datatype js_exn = JsError string | JsOther string

fun err_text :: "js_exn \<Rightarrow> string" where
  "err_text (JsError m) = m"
| "err_text (JsOther s) = s"

text \<open>
  \<^verbatim>\<open>String.prototype.trim\<close> removes the white space and line terminators at both ends.
  Of the code points ECMAScript lists, those that an Isabelle character can hold are
  TAB, LF, VT, FF, CR, SPACE and NBSP.
\<close>

definition is_ws :: "char \<Rightarrow> bool" where
  "is_ws c = (c \<in> set [CHR 0x09, CHR 0x0A, CHR 0x0B, CHR 0x0C, CHR 0x0D, CHR 0x20, CHR 0xA0])"

definition trim :: "string \<Rightarrow> string" where
  "trim s = rev (dropWhile is_ws (rev (dropWhile is_ws s)))"

section \<open>types.ts\<close>

record KeyInfo =
  keyId :: string
  name :: string
  algorithm :: string
  createdAt :: string

record KeyDetails =
  info :: KeyInfo
  publicKeyPem :: string

text \<open>
  \<^verbatim>\<open>SignatureAlgorithm\<close> is a union of three string literal types; \<open>alg_str\<close> gives the
  literal of each variant, which is the value that travels in a request.
\<close>

datatype SignatureAlgorithm = RSA_PKCS1_SHA256 | ECDSA_P256_SHA256 | Ed25519

fun alg_str :: "SignatureAlgorithm \<Rightarrow> string" where
  "alg_str RSA_PKCS1_SHA256 = ''RSA-PKCS1-SHA256''"
| "alg_str ECDSA_P256_SHA256 = ''ECDSA-P256-SHA256''"
| "alg_str Ed25519 = ''Ed25519''"

datatype SignatureFormat = detached

record SigningOptions =
  format :: SignatureFormat

record VerificationResult =
  isValid :: bool
  errorMessage :: "string option"

record AlgorithmChoice =
  alg_value :: SignatureAlgorithm
  alg_label :: string

definition supportedAlgorithmsForGeneration :: "AlgorithmChoice list" where
  "supportedAlgorithmsForGeneration =
     [\<lparr>alg_value = RSA_PKCS1_SHA256, alg_label = ''RSA 2048 (PKCS#1 SHA-256)''\<rparr>,
      \<lparr>alg_value = ECDSA_P256_SHA256, alg_label = ''ECDSA P-256 (SHA-256)''\<rparr>,
      \<lparr>alg_value = Ed25519, alg_label = ''Ed25519''\<rparr>]"

section \<open>Requests to the backend\<close>

text \<open>
  A call \<^verbatim>\<open>invoke(cmd, {k1: v1, ...})\<close> is recorded as the command name with the list of
  named inputs, in the order of the object literal. An input is \<^verbatim>\<open>null\<close>, a string or the
  \<^verbatim>\<open>SigningOptions\<close> object; a state variable of type \<^verbatim>\<open>string | null\<close> is sent as it
  is. A handler returns its final state together with the requests it has sent. The reply
  of the backend is an argument of the handler: \<^term>\<open>Inr\<close> the value the promise resolves
  to, \<^term>\<open>Inl\<close> the value it rejects with.
\<close>

datatype jsval = Null | Str string | Opts SigningOptions

fun of_nullable :: "string option \<Rightarrow> jsval" where
  "of_nullable None = Null"
| "of_nullable (Some s) = Str s"

record invocation =
  command :: string
  args :: "(string \<times> jsval) list"

record 's run =
  final :: 's
  sent :: "invocation list"

section \<open>GenerateKey.svelte\<close>

record GenerateKey =
  keyName :: string
  selectedAlgorithm :: SignatureAlgorithm
  password :: string
  confirmPassword :: string
  loading :: bool
  error :: "string option"

text \<open>
  Besides its final state and the requests it has sent, a run of \<^verbatim>\<open>generateKey\<close> records
  the argument of its call of the callback \<^verbatim>\<open>onGenerated\<close>, if it makes one. The callback
  of the page only switches the view; it is taken not to throw.
\<close>

record 's gen_run = "'s run" +
  onGenerated :: "KeyDetails option"

definition GenerateKey_init :: GenerateKey where
  "GenerateKey_init =
     \<lparr>keyName = [], selectedAlgorithm = alg_value (hd supportedAlgorithmsForGeneration),
      password = [], confirmPassword = [], loading = False, error = None\<rparr>"

definition generate_request :: "GenerateKey \<Rightarrow> invocation" where
  "generate_request st =
     \<lparr>command = ''generate_key_pair'',
      args = [(''name'', Str (trim (keyName st))),
              (''algStr'', Str (alg_str (selectedAlgorithm st))),
              (''password'', Str (GenerateKey.password st))]\<rparr>"

definition generateKey :: "GenerateKey \<Rightarrow> js_exn + KeyDetails \<Rightarrow> GenerateKey gen_run" where
  "generateKey st reply =
     (if GenerateKey.password st \<noteq> confirmPassword st then
        \<lparr>final = st\<lparr>GenerateKey.error := Some ''Passwords do not match.''\<rparr>,
         sent = [], onGenerated = None\<rparr>
      else if trim (keyName st) = [] then
        \<lparr>final = st\<lparr>GenerateKey.error := Some ''Key name cannot be empty.''\<rparr>,
         sent = [], onGenerated = None\<rparr>
      else if GenerateKey.password st = [] then
        \<lparr>final = st\<lparr>GenerateKey.error := Some ''Password cannot be empty.''\<rparr>,
         sent = [], onGenerated = None\<rparr>
      else
        (let st1 = st\<lparr>GenerateKey.loading := True, GenerateKey.error := None\<rparr> in
         case reply of
           Inr newKeyDetails \<Rightarrow>
             \<lparr>final = st1\<lparr>GenerateKey.loading := False\<rparr>,
              sent = [generate_request st1], onGenerated = Some newKeyDetails\<rparr>
         | Inl e \<Rightarrow>
             \<lparr>final = st1\<lparr>GenerateKey.error := Some (''Generation failed: '' @ err_text e),
                          GenerateKey.loading := False\<rparr>,
              sent = [generate_request st1], onGenerated = None\<rparr>))"

section \<open>SignView.svelte\<close>

text \<open>
  While a handler waits for a dialog or for the backend, \<^verbatim>\<open>signing\<close> (or \<^verbatim>\<open>verifying\<close>)
  is true and the inputs of the form are disabled, so a handler is modelled as one step
  from the state it starts in.
\<close>

record SignView =
  keys :: "KeyInfo list"
  selectedKeyId :: "string option"
  documentPath :: "string option"
  password :: string
  loadingKeys :: bool
  signing :: bool
  error :: "string option"
  successMessage :: "string option"

definition SignView_effect :: "SignView \<Rightarrow> SignView" where
  "SignView_effect st =
     (if \<not> SignView.loadingKeys st \<and> length (SignView.keys st) > 0
         \<and> SignView.selectedKeyId st = None
      then st\<lparr>SignView.selectedKeyId := Some (keyId (SignView.keys st ! 0))\<rparr>
      else st)"

definition list_keys_request :: invocation where
  "list_keys_request = \<lparr>command = ''list_keys'', args = []\<rparr>"

definition SignView_loadKeys :: "SignView \<Rightarrow> js_exn + KeyInfo list \<Rightarrow> SignView run" where
  "SignView_loadKeys st reply =
     (let st1 = st\<lparr>SignView.loadingKeys := True, SignView.error := None\<rparr> in
      case reply of
        Inr ks \<Rightarrow>
          (let st2 = st1\<lparr>SignView.keys := ks\<rparr>;
               st3 = (if length ks > 0 \<and> falsy (SignView.selectedKeyId st2)
                      then st2\<lparr>SignView.selectedKeyId := Some (keyId (ks ! 0))\<rparr> else st2)
           in \<lparr>final = st3\<lparr>SignView.loadingKeys := False\<rparr>, sent = [list_keys_request]\<rparr>)
      | Inl e \<Rightarrow>
          \<lparr>final = st1\<lparr>SignView.error := Some (''Failed to load keys: '' @ err_text e),
                       SignView.keys := [], SignView.loadingKeys := False\<rparr>,
           sent = [list_keys_request]\<rparr>)"

definition sign_request :: "SignView \<Rightarrow> string option \<Rightarrow> invocation" where
  "sign_request st outputPath =
     \<lparr>command = ''sign_document'',
      args = [(''documentPath'', of_nullable (SignView.documentPath st)),
              (''keyId'', of_nullable (SignView.selectedKeyId st)),
              (''password'', Str (SignView.password st)),
              (''outputPath'', of_nullable outputPath),
              (''options'', Opts \<lparr>format = detached\<rparr>)]\<rparr>"

text \<open>
  \<open>signDocument st dialog reply\<close>: \<open>dialog\<close> is the outcome of the save dialog (the chosen
  path, \<^verbatim>\<open>null\<close> when the user cancels, or a thrown value), \<open>reply\<close> the outcome of
  \<^verbatim>\<open>sign_document\<close>, read only when the request is sent.
\<close>

definition signDocument ::
  "SignView \<Rightarrow> js_exn + string option \<Rightarrow> js_exn + unit \<Rightarrow> SignView run" where
  "signDocument st dialog reply =
     (if falsy (SignView.documentPath st) \<or> falsy (SignView.selectedKeyId st) then
        \<lparr>final = st\<lparr>SignView.error := Some ''Please select a document and a key.''\<rparr>,
         sent = []\<rparr>
      else if SignView.password st = [] then
        \<lparr>final = st\<lparr>SignView.error := Some ''Please enter the key password.''\<rparr>, sent = []\<rparr>
      else
        (let st1 = st\<lparr>signing := True, SignView.error := None, successMessage := None\<rparr> in
         case dialog of
           Inl e \<Rightarrow>
             \<lparr>final = st1\<lparr>SignView.error := Some (''Signing failed: '' @ err_text e),
                          signing := False\<rparr>,
              sent = []\<rparr>
         | Inr outputPath \<Rightarrow>
             if falsy outputPath then \<lparr>final = st1\<lparr>signing := False\<rparr>, sent = []\<rparr>
             else
               (case reply of
                  Inr u \<Rightarrow>
                    \<lparr>final = st1\<lparr>successMessage :=
                                   Some (''Document signed successfully! Signature saved to: ''
                                         @ (case outputPath of Some p \<Rightarrow> p | None \<Rightarrow> ''null'')),
                                 SignView.password := [], signing := False\<rparr>,
                     sent = [sign_request st1 outputPath]\<rparr>
                | Inl e \<Rightarrow>
                    \<lparr>final = st1\<lparr>SignView.error := Some (''Signing failed: '' @ err_text e),
                                 signing := False\<rparr>,
                     sent = [sign_request st1 outputPath]\<rparr>)))"

section \<open>VerifyView.svelte\<close>

record VerifyView =
  keys :: "KeyInfo list"
  selectedKeyId :: "string option"
  documentPath :: "string option"
  signaturePath :: "string option"
  loadingKeys :: bool
  verifying :: bool
  error :: "string option"
  verificationResult :: "VerificationResult option"

definition VerifyView_effect :: "VerifyView \<Rightarrow> VerifyView" where
  "VerifyView_effect st =
     (let st1 = (if \<not> VerifyView.loadingKeys st \<and> length (VerifyView.keys st) > 0
                    \<and> VerifyView.selectedKeyId st = None
                 then st\<lparr>VerifyView.selectedKeyId := Some (keyId (VerifyView.keys st ! 0))\<rparr>
                 else st)
      in if \<not> VerifyView.loadingKeys st1 \<and> length (VerifyView.keys st1) = 0
         then st1\<lparr>VerifyView.selectedKeyId := None\<rparr> else st1)"

definition VerifyView_loadKeys :: "VerifyView \<Rightarrow> js_exn + KeyInfo list \<Rightarrow> VerifyView run" where
  "VerifyView_loadKeys st reply =
     (let st1 = st\<lparr>VerifyView.loadingKeys := True, VerifyView.error := None\<rparr> in
      case reply of
        Inr ks \<Rightarrow>
          (let st2 = st1\<lparr>VerifyView.keys := ks\<rparr>;
               st3 = (if length ks > 0 \<and> falsy (VerifyView.selectedKeyId st2)
                      then st2\<lparr>VerifyView.selectedKeyId := Some (keyId (ks ! 0))\<rparr> else st2)
           in \<lparr>final = st3\<lparr>VerifyView.loadingKeys := False\<rparr>, sent = [list_keys_request]\<rparr>)
      | Inl e \<Rightarrow>
          \<lparr>final = st1\<lparr>VerifyView.error := Some (''Failed load keys: '' @ err_text e),
                       VerifyView.keys := [], VerifyView.loadingKeys := False\<rparr>,
           sent = [list_keys_request]\<rparr>)"

definition verify_request :: "VerifyView \<Rightarrow> invocation" where
  "verify_request st =
     \<lparr>command = ''verify_signature'',
      args = [(''documentPath'', of_nullable (VerifyView.documentPath st)),
              (''signaturePath'', of_nullable (signaturePath st)),
              (''keyId'', of_nullable (VerifyView.selectedKeyId st))]\<rparr>"

definition verify :: "VerifyView \<Rightarrow> js_exn + VerificationResult \<Rightarrow> VerifyView run" where
  "verify st reply =
     (if falsy (VerifyView.documentPath st) \<or> falsy (signaturePath st)
         \<or> falsy (VerifyView.selectedKeyId st) then
        \<lparr>final = st\<lparr>VerifyView.error := Some ''Please select the document, signature, and key.'',
                     verificationResult := None\<rparr>,
         sent = []\<rparr>
      else
        (let st1 = st\<lparr>verifying := True, VerifyView.error := None, verificationResult := None\<rparr> in
         case reply of
           Inr result \<Rightarrow>
             \<lparr>final = st1\<lparr>verificationResult := Some result, verifying := False\<rparr>,
              sent = [verify_request st1]\<rparr>
         | Inl e \<Rightarrow>
             \<lparr>final = st1\<lparr>VerifyView.error :=
                            Some (''Verification process failed: '' @ err_text e),
                          verificationResult := None, verifying := False\<rparr>,
              sent = [verify_request st1]\<rparr>))"

section \<open>The verification command of the backend\<close>

text \<open>
  Modelled from the spec: the command \<^verbatim>\<open>verify_signature\<close> of the backend, whose code is not
  among the sources (the frontend only calls it). The spec (4.4, \<^verbatim>\<open>verify\<close>, steps 1 to 3, and
  section 7) says: load the record of the key, failing with \<^verbatim>\<open>KeyNotFound\<close> if it is absent;
  read the document and the signature, failing with \<^verbatim>\<open>DocumentReadError\<close> or
  \<^verbatim>\<open>SignatureReadError\<close>, which carry the error of the operating system; run the
  algorithm's \<^verbatim>\<open>verify\<close>, which returns a boolean and never throws, and return the result
  as a value: \<^verbatim>\<open>isValid\<close>, with a descriptive reason when it is false.

  What the spec leaves open is a field of \<open>backend\<close>: the key store (only the algorithm
  and the public key of a record are read), the file system, the algorithms' \<^verbatim>\<open>verify\<close>,
  the text of the reason, and the value with which \<^verbatim>\<open>invoke\<close> rejects for an error kind.
  The spec does not say which file is read first; the document is.
\<close>

type_synonym bytes = string

record PublicRecord =
  recordAlgorithm :: SignatureAlgorithm
  publicKey :: string

datatype vault_error =
  InvalidInput | KeyNotFound | DocumentReadError string | SignatureReadError string

record backend =
  store :: "string \<rightharpoonup> PublicRecord"
  readFile :: "string \<Rightarrow> string + bytes"
  alg_verify :: "SignatureAlgorithm \<Rightarrow> string \<Rightarrow> bytes \<Rightarrow> bytes \<Rightarrow> bool"
  reason :: string
  rejection :: "vault_error \<Rightarrow> js_exn"

definition verify_signature ::
  "backend \<Rightarrow> string \<Rightarrow> string \<Rightarrow> string \<Rightarrow> vault_error + VerificationResult" where
  "verify_signature b docPath sigPath kid =
     (case store b kid of
        None \<Rightarrow> Inl KeyNotFound
      | Some r \<Rightarrow>
          (case readFile b docPath of
             Inl os \<Rightarrow> Inl (DocumentReadError os)
           | Inr doc \<Rightarrow>
               (case readFile b sigPath of
                  Inl os \<Rightarrow> Inl (SignatureReadError os)
                | Inr sg \<Rightarrow>
                    if alg_verify b (recordAlgorithm r) (publicKey r) doc sg
                    then Inr \<lparr>isValid = True, errorMessage = None\<rparr>
                    else Inr \<lparr>isValid = False, errorMessage = Some (reason b)\<rparr>)))"

text \<open>
  Modelled from the spec: how a request reaches the command. The three inputs of the spec's
  table are read by name; a request without them fails validation (\<^verbatim>\<open>InvalidInput\<close>). An
  error kind becomes the value the promise rejects with, a result the value it resolves to.
\<close>

definition invoke_verify :: "backend \<Rightarrow> invocation \<Rightarrow> js_exn + VerificationResult" where
  "invoke_verify b r =
     (case (map_of (args r) ''documentPath'', map_of (args r) ''signaturePath'',
            map_of (args r) ''keyId'') of
        (Some (Str d), Some (Str s), Some (Str k)) \<Rightarrow>
          (case verify_signature b d s k of
             Inl e \<Rightarrow> Inl (rejection b e)
           | Inr v \<Rightarrow> Inr v)
      | _ \<Rightarrow> Inl (rejection b InvalidInput))"

text \<open>
  A completed \<^verbatim>\<open>verify\<close> of the view against this backend: the reply the handler reads is
  the backend's answer to the request the handler sends.
\<close>

definition verify_against :: "backend \<Rightarrow> VerifyView \<Rightarrow> VerifyView run" where
  "verify_against b st = verify st (invoke_verify b (verify_request st))"

section \<open>Properties of trim\<close>

lemma trim_prefix_split:
  "dropWhile is_ws s = trim s @ rev (takeWhile is_ws (rev (dropWhile is_ws s)))"
proof -
  have "rev (takeWhile is_ws (rev (dropWhile is_ws s)) @ dropWhile is_ws (rev (dropWhile is_ws s)))
        = dropWhile is_ws s"
    by (simp only: takeWhile_dropWhile_id rev_rev_ident)
  then show ?thesis
    by (simp only: rev_append trim_def)
qed

lemma trim_Nil: "trim [] = []"
  by (simp add: trim_def)

lemma trim_empty_iff: "trim s = [] \<longleftrightarrow> (\<forall>c\<in>set s. is_ws c)"
proof
  assume e: "trim s = []"
  have "dropWhile is_ws s = []"
  proof (rule ccontr)
    assume ne: "dropWhile is_ws s \<noteq> []"
    then have "\<not> is_ws (hd (dropWhile is_ws s))"
      by (rule hd_dropWhile)
    moreover have "dropWhile is_ws (rev (dropWhile is_ws s)) = []"
      using e by (simp only: trim_def rev_is_Nil_conv)
    then have "\<forall>c\<in>set (rev (dropWhile is_ws s)). is_ws c"
      by (simp only: dropWhile_eq_Nil_conv)
    then have "\<forall>c\<in>set (dropWhile is_ws s). is_ws c"
      by (simp only: set_rev)
    ultimately show False
      using ne by (metis list.set_sel(1))
  qed
  then show "\<forall>c\<in>set s. is_ws c"
    by (simp only: dropWhile_eq_Nil_conv)
next
  assume "\<forall>c\<in>set s. is_ws c"
  then have "dropWhile is_ws s = []"
    by (simp only: dropWhile_eq_Nil_conv)
  then have "trim s = rev (dropWhile is_ws (rev []))"
    by (simp only: trim_def)
  then show "trim s = []"
    by simp
qed

lemma trim_hd: assumes "trim s \<noteq> []" shows "\<not> is_ws (hd (trim s))"
proof -
  have ne: "dropWhile is_ws s \<noteq> []"
    using assms trim_prefix_split [of s] by (metis append_is_Nil_conv)
  have "hd (dropWhile is_ws s) = hd (trim s)"
    using assms trim_prefix_split [of s] by (metis hd_append2)
  then show ?thesis
    using hd_dropWhile [OF ne] by simp
qed

lemma trim_last: assumes "trim s \<noteq> []" shows "\<not> is_ws (last (trim s))"
proof -
  have ne: "dropWhile is_ws (rev (dropWhile is_ws s)) \<noteq> []"
    using assms by (simp only: trim_def rev_is_Nil_conv not_False_eq_True)
  have "last (trim s) = hd (dropWhile is_ws (rev (dropWhile is_ws s)))"
    by (simp only: trim_def last_rev)
  then show ?thesis
    using hd_dropWhile [OF ne] by simp
qed

lemma dropWhile_hd_id: "xs \<noteq> [] \<Longrightarrow> \<not> P (hd xs) \<Longrightarrow> dropWhile P xs = xs"
  by (cases xs) simp_all

lemma trim_idem: "trim (trim s) = trim s"
proof (cases "trim s = []")
  case True
  then show ?thesis by (simp only: trim_Nil)
next
  case False
  have a: "dropWhile is_ws (trim s) = trim s"
    using False trim_hd [OF False] by (rule dropWhile_hd_id)
  have "rev (trim s) \<noteq> []"
    using False by simp
  moreover have "\<not> is_ws (hd (rev (trim s)))"
    using False trim_last [OF False] by (simp add: hd_rev)
  ultimately have b: "dropWhile is_ws (rev (trim s)) = rev (trim s)"
    by (rule dropWhile_hd_id)
  have "trim (trim s) = rev (dropWhile is_ws (rev (dropWhile is_ws (trim s))))"
    by (rule trim_def)
  also have "\<dots> = trim s"
    by (simp only: a b rev_rev_ident)
  finally show ?thesis .
qed

section \<open>Helper facts\<close>

lemma of_nullable_Str: "\<not> falsy v \<Longrightarrow> \<exists>s. v = Some s \<and> s \<noteq> [] \<and> of_nullable v = Str s"
  by (cases v) (simp_all add: falsy_def)

lemma signDocument_sent_cases:
  "sent (signDocument st dialog reply) =
     (if \<not> falsy (SignView.documentPath st) \<and> \<not> falsy (SignView.selectedKeyId st)
         \<and> SignView.password st \<noteq> [] \<and> (\<exists>p. dialog = Inr p \<and> \<not> falsy p)
      then [sign_request (st\<lparr>signing := True, SignView.error := None, successMessage := None\<rparr>)
              (case dialog of Inr p \<Rightarrow> p | Inl e \<Rightarrow> None)]
      else [])"
  by (cases dialog; cases reply) (auto simp: signDocument_def Let_def)

lemma trim_example: "trim ''  work key  '' = ''work key''"
  by (simp add: trim_def is_ws_def)

lemma SignView_loadKeys_done: "\<not> SignView.loadingKeys (final (SignView_loadKeys s reply))"
  by (cases reply) (simp_all add: SignView_loadKeys_def Let_def)

lemma VerifyView_loadKeys_done: "\<not> VerifyView.loadingKeys (final (VerifyView_loadKeys v reply))"
  by (cases reply) (simp_all add: VerifyView_loadKeys_def Let_def)

lemma SignView_effect_selected:
  "\<not> SignView.loadingKeys s \<Longrightarrow> SignView.keys s \<noteq> [] \<Longrightarrow>
   SignView.selectedKeyId (SignView_effect s) \<noteq> None"
  by (simp add: SignView_effect_def)

lemma SignView_effect_keys: "SignView.keys (SignView_effect s) = SignView.keys s"
  "SignView.loadingKeys (SignView_effect s) = SignView.loadingKeys s"
  by (simp_all add: SignView_effect_def)

lemma VerifyView_effect_selected:
  "\<not> VerifyView.loadingKeys v \<Longrightarrow> VerifyView.keys v \<noteq> [] \<Longrightarrow>
   VerifyView.selectedKeyId (VerifyView_effect v) \<noteq> None"
  by (simp add: VerifyView_effect_def Let_def)

lemma VerifyView_effect_keys: "VerifyView.keys (VerifyView_effect v) = VerifyView.keys v"
  "VerifyView.loadingKeys (VerifyView_effect v) = VerifyView.loadingKeys v"
  by (simp_all add: VerifyView_effect_def Let_def)

lemma invoke_verify_request:
  assumes "VerifyView.documentPath st = Some d" and "signaturePath st = Some s"
    and "VerifyView.selectedKeyId st = Some k"
  shows "invoke_verify b (verify_request st) =
     (case verify_signature b d s k of Inl e \<Rightarrow> Inl (rejection b e) | Inr v \<Rightarrow> Inr v)"
  using assms by (simp add: invoke_verify_def verify_request_def)

lemma verify_signature_Inr_iff:
  "(\<exists>v. verify_signature b d s k = Inr v) \<longleftrightarrow>
   (store b k \<noteq> None \<and> (\<exists>doc. readFile b d = Inr doc) \<and> (\<exists>sg. readFile b s = Inr sg))"
  by (auto simp: verify_signature_def split: option.splits sum.splits)

lemma verify_final_error:
  "\<not> falsy (VerifyView.documentPath st) \<Longrightarrow> \<not> falsy (signaturePath st) \<Longrightarrow>
   \<not> falsy (VerifyView.selectedKeyId st) \<Longrightarrow>
   VerifyView.error (final (verify st reply)) \<noteq> None \<Longrightarrow>
   (\<exists>e. reply = Inl e) \<and> verificationResult (final (verify st reply)) = None"
  by (cases reply) (simp_all add: verify_def Let_def)

section \<open>The verify handler\<close>

text \<open>
  Claim C1. In the \<^verbatim>\<open>verify\<close> handler, when the three inputs are chosen the request is sent;
  if it returns a result, whatever its \<^verbatim>\<open>isValid\<close>, the result is stored in
  \<^verbatim>\<open>verificationResult\<close> and \<^verbatim>\<open>error\<close> is null; if it throws, \<^verbatim>\<open>error\<close> holds the message
  and \<^verbatim>\<open>verificationResult\<close> is null; after every completed \<^verbatim>\<open>verify\<close>, the guard branch
  included, at most one of the two is non-null. Against the backend as the spec describes
  it: when the key exists and both files can be read, the run ends with \<^verbatim>\<open>error\<close> null
  and a result whose \<^verbatim>\<open>isValid\<close> is the algorithm's verdict, so a signature the algorithm
  rejects gives \<^verbatim>\<open>isValid = false\<close> with the reason and never an error; a run that ends
  with an error is one where the key is missing or a file cannot be read.
\<close>

theorem verify_outcome:
  "(\<not> falsy (VerifyView.documentPath st) \<and> \<not> falsy (signaturePath st)
      \<and> \<not> falsy (VerifyView.selectedKeyId st) \<longrightarrow>
      (sent (verify st reply)
         = [verify_request (st\<lparr>verifying := True, VerifyView.error := None,
                                verificationResult := None\<rparr>)] \<and>
       verificationResult (final (verify st (Inr result))) = Some result \<and>
       VerifyView.error (final (verify st (Inr result))) = None \<and>
       verificationResult (final (verify st (Inl e))) = None \<and>
       VerifyView.error (final (verify st (Inl e)))
         = Some (''Verification process failed: '' @ err_text e)))
   \<and> (verificationResult (final (verify st reply)) = None
        \<or> VerifyView.error (final (verify st reply)) = None)
   \<and> (VerifyView.documentPath st = Some d \<and> d \<noteq> [] \<and> signaturePath st = Some s
        \<and> s \<noteq> [] \<and> VerifyView.selectedKeyId st = Some k \<and> k \<noteq> []
        \<and> store b k = Some r \<and> readFile b d = Inr doc \<and> readFile b s = Inr sg \<longrightarrow>
        VerifyView.error (final (verify_against b st)) = None \<and>
        verificationResult (final (verify_against b st))
          = Some \<lparr>isValid = alg_verify b (recordAlgorithm r) (publicKey r) doc sg,
                  errorMessage = (if alg_verify b (recordAlgorithm r) (publicKey r) doc sg
                                  then None else Some (reason b))\<rparr>)
   \<and> (VerifyView.documentPath st = Some d \<and> d \<noteq> [] \<and> signaturePath st = Some s
        \<and> s \<noteq> [] \<and> VerifyView.selectedKeyId st = Some k \<and> k \<noteq> []
        \<and> VerifyView.error (final (verify_against b st)) \<noteq> None \<longrightarrow>
        verificationResult (final (verify_against b st)) = None \<and>
        (store b k = None \<or> (\<exists>os. readFile b d = Inl os) \<or> (\<exists>os. readFile b s = Inl os)))
   \<and> (verificationResult (final (verify_against b st)) = None
        \<or> VerifyView.error (final (verify_against b st)) = None)"
proof -
  have p1: "sent (verify st reply)
         = [verify_request (st\<lparr>verifying := True, VerifyView.error := None,
                                verificationResult := None\<rparr>)] \<and>
       verificationResult (final (verify st (Inr result))) = Some result \<and>
       VerifyView.error (final (verify st (Inr result))) = None \<and>
       verificationResult (final (verify st (Inl e))) = None \<and>
       VerifyView.error (final (verify st (Inl e)))
         = Some (''Verification process failed: '' @ err_text e)"
    if "\<not> falsy (VerifyView.documentPath st) \<and> \<not> falsy (signaturePath st)
      \<and> \<not> falsy (VerifyView.selectedKeyId st)"
    using that by (cases reply) (simp_all add: verify_def Let_def)
  have p2: "verificationResult (final (verify st reply)) = None
        \<or> VerifyView.error (final (verify st reply)) = None"
    by (cases reply) (simp_all add: verify_def Let_def)
  have p3: "VerifyView.error (final (verify_against b st)) = None \<and>
        verificationResult (final (verify_against b st))
          = Some \<lparr>isValid = alg_verify b (recordAlgorithm r) (publicKey r) doc sg,
                  errorMessage = (if alg_verify b (recordAlgorithm r) (publicKey r) doc sg
                                  then None else Some (reason b))\<rparr>"
    if h: "VerifyView.documentPath st = Some d \<and> d \<noteq> [] \<and> signaturePath st = Some s
        \<and> s \<noteq> [] \<and> VerifyView.selectedKeyId st = Some k \<and> k \<noteq> []
        \<and> store b k = Some r \<and> readFile b d = Inr doc \<and> readFile b s = Inr sg"
  proof -
    from h have inv: "invoke_verify b (verify_request st) = Inr \<lparr>isValid = alg_verify b (recordAlgorithm r) (publicKey r) doc sg,
                  errorMessage = (if alg_verify b (recordAlgorithm r) (publicKey r) doc sg
                                  then None else Some (reason b))\<rparr>"
      by (simp add: invoke_verify_request [of st d s k] verify_signature_def)
    from h show ?thesis
      by (simp add: verify_against_def inv verify_def falsy_def Let_def)
  qed
  have p4: "verificationResult (final (verify_against b st)) = None \<and>
        (store b k = None \<or> (\<exists>os. readFile b d = Inl os) \<or> (\<exists>os. readFile b s = Inl os))"
    if h: "VerifyView.documentPath st = Some d \<and> d \<noteq> [] \<and> signaturePath st = Some s
        \<and> s \<noteq> [] \<and> VerifyView.selectedKeyId st = Some k \<and> k \<noteq> []
        \<and> VerifyView.error (final (verify_against b st)) \<noteq> None"
  proof -
    from h have g: "\<not> falsy (VerifyView.documentPath st)" "\<not> falsy (signaturePath st)"
        "\<not> falsy (VerifyView.selectedKeyId st)"
      by (simp_all add: falsy_def)
    from h have err:
      "VerifyView.error (final (verify st (invoke_verify b (verify_request st)))) \<noteq> None"
      by (simp add: verify_against_def)
    from verify_final_error [OF g err]
    have rej: "\<exists>e. invoke_verify b (verify_request st) = Inl e"
      and none: "verificationResult (final (verify st (invoke_verify b (verify_request st)))) = None"
      by simp_all
    from h have "invoke_verify b (verify_request st) =
       (case verify_signature b d s k of Inl e \<Rightarrow> Inl (rejection b e) | Inr v \<Rightarrow> Inr v)"
      by (simp add: invoke_verify_request)
    with rej have "\<not> (\<exists>v. verify_signature b d s k = Inr v)"
      by (auto split: sum.splits)
    then have "\<not> (store b k \<noteq> None \<and> (\<exists>doc. readFile b d = Inr doc)
        \<and> (\<exists>sg. readFile b s = Inr sg))"
      using verify_signature_Inr_iff [of b d s k] by blast
    then have "store b k = None \<or> (\<exists>os. readFile b d = Inl os) \<or> (\<exists>os. readFile b s = Inl os)"
      by (metis sum.exhaust)
    with none show ?thesis
      by (simp add: verify_against_def)
  qed
  have p5: "verificationResult (final (verify_against b st)) = None
        \<or> VerifyView.error (final (verify_against b st)) = None"
    unfolding verify_against_def
    by (cases "invoke_verify b (verify_request st)") (simp_all add: verify_def Let_def)
  from p1 p2 p3 p4 p5 show ?thesis
    by blast
qed

theorem verify_outcome_witness:
  "VerifyView.error (final (verify_against
      \<lparr>store = [''k1'' \<mapsto> \<lparr>recordAlgorithm = Ed25519, publicKey = ''PEM''\<rparr>],
       readFile = (\<lambda>p. if p = ''a.txt'' then Inr ''hello''
                       else if p = ''a.txt.sig'' then Inr ''bad'' else Inl ''not found''),
       alg_verify = (\<lambda>a pk doc sg. sg = rev doc), reason = ''Signature mismatch'',
       rejection = (\<lambda>e. JsOther ''vault error'')\<rparr>
      \<lparr>VerifyView.keys = [], selectedKeyId = Some ''k1'', documentPath = Some ''a.txt'',
       signaturePath = Some ''a.txt.sig'', loadingKeys = False, verifying = False,
       error = Some ''old'', verificationResult = None\<rparr>)) = None
   \<and> verificationResult (final (verify_against
      \<lparr>store = [''k1'' \<mapsto> \<lparr>recordAlgorithm = Ed25519, publicKey = ''PEM''\<rparr>],
       readFile = (\<lambda>p. if p = ''a.txt'' then Inr ''hello''
                       else if p = ''a.txt.sig'' then Inr ''bad'' else Inl ''not found''),
       alg_verify = (\<lambda>a pk doc sg. sg = rev doc), reason = ''Signature mismatch'',
       rejection = (\<lambda>e. JsOther ''vault error'')\<rparr>
      \<lparr>VerifyView.keys = [], selectedKeyId = Some ''k1'', documentPath = Some ''a.txt'',
       signaturePath = Some ''a.txt.sig'', loadingKeys = False, verifying = False,
       error = Some ''old'', verificationResult = None\<rparr>))
     = Some \<lparr>isValid = False, errorMessage = Some ''Signature mismatch''\<rparr>
   \<and> VerifyView.error (final (verify_against
      \<lparr>store = [''k1'' \<mapsto> \<lparr>recordAlgorithm = Ed25519, publicKey = ''PEM''\<rparr>],
       readFile = (\<lambda>p. if p = ''a.txt'' then Inr ''hello''
                       else if p = ''a.txt.sig'' then Inr ''bad'' else Inl ''not found''),
       alg_verify = (\<lambda>a pk doc sg. sg = rev doc), reason = ''Signature mismatch'',
       rejection = (\<lambda>e. JsOther ''vault error'')\<rparr>
      \<lparr>VerifyView.keys = [], selectedKeyId = Some ''k2'', documentPath = Some ''a.txt'',
       signaturePath = Some ''a.txt.sig'', loadingKeys = False, verifying = False,
       error = None, verificationResult = None\<rparr>)) = Some ''Verification process failed: vault error''
   \<and> verificationResult (final (verify_against
      \<lparr>store = [''k1'' \<mapsto> \<lparr>recordAlgorithm = Ed25519, publicKey = ''PEM''\<rparr>],
       readFile = (\<lambda>p. if p = ''a.txt'' then Inr ''hello''
                       else if p = ''a.txt.sig'' then Inr ''bad'' else Inl ''not found''),
       alg_verify = (\<lambda>a pk doc sg. sg = rev doc), reason = ''Signature mismatch'',
       rejection = (\<lambda>e. JsOther ''vault error'')\<rparr>
      \<lparr>VerifyView.keys = [], selectedKeyId = Some ''k2'', documentPath = Some ''a.txt'',
       signaturePath = Some ''a.txt.sig'', loadingKeys = False, verifying = False,
       error = None, verificationResult = None\<rparr>)) = None"
  using verify_outcome [of
      "\<lparr>VerifyView.keys = [], selectedKeyId = Some ''k1'', documentPath = Some ''a.txt'',
       signaturePath = Some ''a.txt.sig'', loadingKeys = False, verifying = False,
       error = Some ''old'', verificationResult = None\<rparr>"
      "Inr \<lparr>isValid = False, errorMessage = Some ''Signature mismatch''\<rparr>"
      "\<lparr>isValid = False, errorMessage = Some ''Signature mismatch''\<rparr>"
      "JsOther ''vault error''" "''a.txt''" "''a.txt.sig''" "''k1''"
      "\<lparr>store = [''k1'' \<mapsto> \<lparr>recordAlgorithm = Ed25519, publicKey = ''PEM''\<rparr>],
       readFile = (\<lambda>p. if p = ''a.txt'' then Inr ''hello''
                       else if p = ''a.txt.sig'' then Inr ''bad'' else Inl ''not found''),
       alg_verify = (\<lambda>a pk doc sg. sg = rev doc), reason = ''Signature mismatch'',
       rejection = (\<lambda>e. JsOther ''vault error'')\<rparr>"
      "\<lparr>recordAlgorithm = Ed25519, publicKey = ''PEM''\<rparr>" "''hello''" "''bad''"]
    verify_outcome [of
      "\<lparr>VerifyView.keys = [], selectedKeyId = Some ''k2'', documentPath = Some ''a.txt'',
       signaturePath = Some ''a.txt.sig'', loadingKeys = False, verifying = False,
       error = None, verificationResult = None\<rparr>"
      "Inl (JsOther ''vault error'')"
      "\<lparr>isValid = False, errorMessage = None\<rparr>"
      "JsOther ''vault error''" "''a.txt''" "''a.txt.sig''" "''k2''"
      "\<lparr>store = [''k1'' \<mapsto> \<lparr>recordAlgorithm = Ed25519, publicKey = ''PEM''\<rparr>],
       readFile = (\<lambda>p. if p = ''a.txt'' then Inr ''hello''
                       else if p = ''a.txt.sig'' then Inr ''bad'' else Inl ''not found''),
       alg_verify = (\<lambda>a pk doc sg. sg = rev doc), reason = ''Signature mismatch'',
       rejection = (\<lambda>e. JsOther ''vault error'')\<rparr>"
      "\<lparr>recordAlgorithm = Ed25519, publicKey = ''PEM''\<rparr>" "''hello''" "''bad''"]
  by (simp add: falsy_def verify_against_def invoke_verify_def verify_request_def
      verify_signature_def verify_def)

section \<open>The signature algorithms\<close>

text \<open>
  Claim C7. The algorithms offered for key generation and the values of the type
  \<^verbatim>\<open>SignatureAlgorithm\<close> are both exactly RSA-PKCS1-SHA256, ECDSA-P256-SHA256 and Ed25519.
\<close>

theorem supported_algorithms_exact:
  "set (map alg_value supportedAlgorithmsForGeneration)
     = {RSA_PKCS1_SHA256, ECDSA_P256_SHA256, Ed25519}
   \<and> (UNIV :: SignatureAlgorithm set) = {RSA_PKCS1_SHA256, ECDSA_P256_SHA256, Ed25519}
   \<and> map (\<lambda>c. alg_str (alg_value c)) supportedAlgorithmsForGeneration
       = [''RSA-PKCS1-SHA256'', ''ECDSA-P256-SHA256'', ''Ed25519'']
   \<and> range alg_str = {''RSA-PKCS1-SHA256'', ''ECDSA-P256-SHA256'', ''Ed25519''}"
proof -
  have u: "(UNIV :: SignatureAlgorithm set) = {RSA_PKCS1_SHA256, ECDSA_P256_SHA256, Ed25519}"
    using SignatureAlgorithm.exhaust by auto
  have "range alg_str = alg_str ` {RSA_PKCS1_SHA256, ECDSA_P256_SHA256, Ed25519}"
    by (simp only: u)
  then have r: "range alg_str = {''RSA-PKCS1-SHA256'', ''ECDSA-P256-SHA256'', ''Ed25519''}"
    by simp
  show ?thesis
    using u r by (simp add: supportedAlgorithmsForGeneration_def)
qed

section \<open>The generateKey handler\<close>

text \<open>
  Claim C4. In every \<^verbatim>\<open>generate_key_pair\<close> request the name is the entered name with the
  white space at both ends removed and is not empty, and the password is not empty. When the
  entered name is empty or consists of white space only, or the password is empty, or the
  two password fields differ, \<^verbatim>\<open>generateKey\<close> sets one of its three local error messages,
  changes nothing else, and sends no request.
\<close>

theorem generateKey_validates_inputs:
  "(\<forall>r\<in>set (sent (generateKey st reply)).
      command r = ''generate_key_pair'' \<and>
      (\<exists>n p. map_of (args r) ''name'' = Some (Str n) \<and> n = trim (keyName st) \<and> n \<noteq> []
             \<and> \<not> is_ws (hd n) \<and> \<not> is_ws (last n) \<and> trim n = n
             \<and> map_of (args r) ''password'' = Some (Str p) \<and> p = GenerateKey.password st
             \<and> p \<noteq> []))
   \<and> ((\<forall>c\<in>set (keyName st). is_ws c) \<or> GenerateKey.password st = []
        \<or> GenerateKey.password st \<noteq> confirmPassword st \<longrightarrow>
        sent (generateKey st reply) = [] \<and> onGenerated (generateKey st reply) = None \<and>
        (\<exists>m \<in> {''Passwords do not match.'', ''Key name cannot be empty.'',
                 ''Password cannot be empty.''}.
           final (generateKey st reply) = st\<lparr>GenerateKey.error := Some m\<rparr>))"
proof (intro conjI ballI impI)
  fix r assume r: "r \<in> set (sent (generateKey st reply))"
  then have ok: "GenerateKey.password st = confirmPassword st" "trim (keyName st) \<noteq> []"
      "GenerateKey.password st \<noteq> []"
    by (auto simp: generateKey_def split: if_splits)
  with r have req: "r = generate_request (st\<lparr>GenerateKey.loading := True, GenerateKey.error := None\<rparr>)"
    by (cases reply) (simp_all add: generateKey_def Let_def)
  show "command r = ''generate_key_pair''"
    by (simp add: req generate_request_def)
  show "\<exists>n p. map_of (args r) ''name'' = Some (Str n) \<and> n = trim (keyName st) \<and> n \<noteq> []
             \<and> \<not> is_ws (hd n) \<and> \<not> is_ws (last n) \<and> trim n = n
             \<and> map_of (args r) ''password'' = Some (Str p) \<and> p = GenerateKey.password st
             \<and> p \<noteq> []"
    using ok trim_hd [OF ok(2)] trim_last [OF ok(2)] trim_idem [of "keyName st"]
    by (simp add: req generate_request_def)
next
  assume "(\<forall>c\<in>set (keyName st). is_ws c) \<or> GenerateKey.password st = []
        \<or> GenerateKey.password st \<noteq> confirmPassword st"
  then have bad: "GenerateKey.password st \<noteq> confirmPassword st \<or> trim (keyName st) = []
        \<or> GenerateKey.password st = []"
    using trim_empty_iff [of "keyName st"] by blast
  then show "sent (generateKey st reply) = []"
    by (auto simp: generateKey_def)
  from bad show "onGenerated (generateKey st reply) = None"
    by (auto simp: generateKey_def)
  from bad show "\<exists>m \<in> {''Passwords do not match.'', ''Key name cannot be empty.'',
                 ''Password cannot be empty.''}.
           final (generateKey st reply) = st\<lparr>GenerateKey.error := Some m\<rparr>"
    by (auto simp: generateKey_def)
qed

theorem generateKey_validates_inputs_witness:
  "sent (generateKey \<lparr>keyName = ''  work key  '', selectedAlgorithm = Ed25519, GenerateKey.password = ''pw'',
           confirmPassword = ''pw'', loading = False, GenerateKey.error = None\<rparr> (Inl (JsOther ''down'')))
     \<noteq> []
   \<and> map_of (args (hd (sent (generateKey \<lparr>keyName = ''  work key  '', selectedAlgorithm = Ed25519,
           GenerateKey.password = ''pw'', confirmPassword = ''pw'', loading = False, GenerateKey.error = None\<rparr>
           (Inl (JsOther ''down'')))))) ''name'' = Some (Str ''work key'')
   \<and> sent (generateKey \<lparr>keyName = ''   '', selectedAlgorithm = Ed25519, GenerateKey.password = ''pw'',
           confirmPassword = ''pw'', loading = False, GenerateKey.error = None\<rparr> (Inl (JsOther ''down'')))
     = []"
  using generateKey_validates_inputs [of
      "\<lparr>keyName = ''  work key  '', selectedAlgorithm = Ed25519, GenerateKey.password = ''pw'',
           confirmPassword = ''pw'', loading = False, GenerateKey.error = None\<rparr>" "Inl (JsOther ''down'')"]
    generateKey_validates_inputs [of
      "\<lparr>keyName = ''   '', selectedAlgorithm = Ed25519, GenerateKey.password = ''pw'',
           confirmPassword = ''pw'', loading = False, GenerateKey.error = None\<rparr>" "Inl (JsOther ''down'')"]
  by (simp add: generateKey_def generate_request_def trim_example is_ws_def)

text \<open>
  The request of \<^verbatim>\<open>generateKey\<close> carries the algorithm under the input name
  \<^verbatim>\<open>algStr\<close>; it has no input named \<^verbatim>\<open>algorithm\<close>.
\<close>

theorem generateKey_algorithm_input_counterexample:
  "sent (generateKey \<lparr>keyName = ''work'', selectedAlgorithm = Ed25519, GenerateKey.password = ''pw'',
           confirmPassword = ''pw'', loading = False, GenerateKey.error = None\<rparr> (Inl (JsOther ''down'')))
     = [\<lparr>command = ''generate_key_pair'',
         args = [(''name'', Str ''work''), (''algStr'', Str ''Ed25519''),
                 (''password'', Str ''pw'')]\<rparr>]
   \<and> map_of (args (hd (sent (generateKey \<lparr>keyName = ''work'', selectedAlgorithm = Ed25519,
           GenerateKey.password = ''pw'', confirmPassword = ''pw'', loading = False, GenerateKey.error = None\<rparr>
           (Inl (JsOther ''down'')))))) ''algorithm'' = None"
  by (simp add: generateKey_def generate_request_def trim_def is_ws_def)

text \<open>
  Claim C5, amended. Every \<^verbatim>\<open>generate_key_pair\<close> request supplies exactly the three inputs
  named \<^verbatim>\<open>name\<close>, \<^verbatim>\<open>algStr\<close> and \<^verbatim>\<open>password\<close>; the input \<^verbatim>\<open>algStr\<close> is the string literal
  of the selected variant of \<^verbatim>\<open>SignatureAlgorithm\<close>.
\<close>

theorem generateKey_request_inputs:
  "\<forall>r\<in>set (sent (generateKey st reply)).
      command r = ''generate_key_pair'' \<and>
      map fst (args r) = [''name'', ''algStr'', ''password''] \<and>
      map_of (args r) ''algStr'' = Some (Str (alg_str (selectedAlgorithm st))) \<and>
      alg_str (selectedAlgorithm st) \<in> {''RSA-PKCS1-SHA256'', ''ECDSA-P256-SHA256'', ''Ed25519''}"
proof
  fix r assume r: "r \<in> set (sent (generateKey st reply))"
  then have "r = generate_request (st\<lparr>GenerateKey.loading := True, GenerateKey.error := None\<rparr>)"
    by (cases reply) (auto simp: generateKey_def Let_def split: if_splits)
  moreover have "alg_str (selectedAlgorithm st)
      \<in> {''RSA-PKCS1-SHA256'', ''ECDSA-P256-SHA256'', ''Ed25519''}"
    by (cases "selectedAlgorithm st") simp_all
  ultimately show "command r = ''generate_key_pair'' \<and>
      map fst (args r) = [''name'', ''algStr'', ''password''] \<and>
      map_of (args r) ''algStr'' = Some (Str (alg_str (selectedAlgorithm st))) \<and>
      alg_str (selectedAlgorithm st) \<in> {''RSA-PKCS1-SHA256'', ''ECDSA-P256-SHA256'', ''Ed25519''}"
    by (simp add: generate_request_def)
qed

theorem generateKey_request_inputs_witness:
  "sent (generateKey \<lparr>keyName = ''work'', selectedAlgorithm = RSA_PKCS1_SHA256, GenerateKey.password = ''pw'',
           confirmPassword = ''pw'', loading = False, GenerateKey.error = None\<rparr>
           (Inr \<lparr>KeyDetails.info = \<lparr>keyId = ''id-1'', name = ''work'', algorithm = ''RSA-PKCS1-SHA256'',
                         createdAt = ''2025-01-01T00:00:00Z''\<rparr>, publicKeyPem = ''PEM''\<rparr>))
     \<noteq> []
   \<and> map fst (args (hd (sent (generateKey \<lparr>keyName = ''work'', selectedAlgorithm = RSA_PKCS1_SHA256,
           GenerateKey.password = ''pw'', confirmPassword = ''pw'', loading = False, GenerateKey.error = None\<rparr>
           (Inr \<lparr>KeyDetails.info = \<lparr>keyId = ''id-1'', name = ''work'', algorithm = ''RSA-PKCS1-SHA256'',
                         createdAt = ''2025-01-01T00:00:00Z''\<rparr>, publicKeyPem = ''PEM''\<rparr>)))))
     = [''name'', ''algStr'', ''password'']"
  using generateKey_request_inputs [of
      "\<lparr>keyName = ''work'', selectedAlgorithm = RSA_PKCS1_SHA256, GenerateKey.password = ''pw'',
           confirmPassword = ''pw'', loading = False, GenerateKey.error = None\<rparr>"
      "Inr \<lparr>KeyDetails.info = \<lparr>keyId = ''id-1'', name = ''work'', algorithm = ''RSA-PKCS1-SHA256'',
                         createdAt = ''2025-01-01T00:00:00Z''\<rparr>, publicKeyPem = ''PEM''\<rparr>"]
  by (simp add: generateKey_def generate_request_def trim_def is_ws_def)

section \<open>The signDocument handler\<close>

text \<open>
  Claim C3. Every \<^verbatim>\<open>sign_document\<close> request carries a document path, a key id, a password
  and an output path that are non-null (and non-empty) strings, together with the options
  object whose format is \<^verbatim>\<open>detached\<close>. When the document, the key or the password is
  missing, or the save dialog returns no path, no request is sent.
\<close>

theorem signDocument_request_complete:
  "(\<forall>r\<in>set (sent (signDocument st dialog reply)).
      command r = ''sign_document'' \<and>
      (\<exists>d k p out.
         args r = [(''documentPath'', Str d), (''keyId'', Str k), (''password'', Str p),
                   (''outputPath'', Str out), (''options'', Opts \<lparr>format = detached\<rparr>)]
         \<and> d \<noteq> [] \<and> k \<noteq> [] \<and> p \<noteq> [] \<and> out \<noteq> []
         \<and> SignView.documentPath st = Some d \<and> SignView.selectedKeyId st = Some k
         \<and> SignView.password st = p \<and> dialog = Inr (Some out)))
   \<and> (falsy (SignView.documentPath st) \<or> falsy (SignView.selectedKeyId st)
        \<or> SignView.password st = [] \<or> (\<exists>p. dialog = Inr p \<and> falsy p) \<longrightarrow>
        sent (signDocument st dialog reply) = [])"
proof (intro conjI ballI impI)
  fix r assume "r \<in> set (sent (signDocument st dialog reply))"
  then have g: "\<not> falsy (SignView.documentPath st)" "\<not> falsy (SignView.selectedKeyId st)"
      "SignView.password st \<noteq> []" "\<exists>p. dialog = Inr p \<and> \<not> falsy p"
    and r: "r = sign_request (st\<lparr>signing := True, SignView.error := None, successMessage := None\<rparr>)
              (case dialog of Inr p \<Rightarrow> p | Inl e \<Rightarrow> None)"
    by (simp_all add: signDocument_sent_cases split: if_splits)
  from g(4) obtain op where op: "dialog = Inr op" "\<not> falsy op"
    by blast
  from of_nullable_Str [OF g(1)] obtain d where d: "SignView.documentPath st = Some d" "d \<noteq> []"
    by auto
  from of_nullable_Str [OF g(2)] obtain k where k: "SignView.selectedKeyId st = Some k" "k \<noteq> []"
    by auto
  from of_nullable_Str [OF op(2)] obtain out where out: "op = Some out" "out \<noteq> []"
    by auto
  show "command r = ''sign_document''"
    by (simp add: r sign_request_def)
  show "\<exists>d k p out.
         args r = [(''documentPath'', Str d), (''keyId'', Str k), (''password'', Str p),
                   (''outputPath'', Str out), (''options'', Opts \<lparr>format = detached\<rparr>)]
         \<and> d \<noteq> [] \<and> k \<noteq> [] \<and> p \<noteq> [] \<and> out \<noteq> []
         \<and> SignView.documentPath st = Some d \<and> SignView.selectedKeyId st = Some k
         \<and> SignView.password st = p \<and> dialog = Inr (Some out)"
    using d k out op(1) g(3) by (simp add: r sign_request_def)
next
  assume "falsy (SignView.documentPath st) \<or> falsy (SignView.selectedKeyId st)
        \<or> SignView.password st = [] \<or> (\<exists>p. dialog = Inr p \<and> falsy p)"
  then show "sent (signDocument st dialog reply) = []"
    by (auto simp: signDocument_sent_cases)
qed

theorem signDocument_request_complete_witness:
  "sent (signDocument
      \<lparr>SignView.keys = [], selectedKeyId = Some ''k1'', documentPath = Some ''a.txt'',
       password = ''pw'', loadingKeys = False, signing = False, error = None,
       successMessage = None\<rparr> (Inr (Some ''a.txt.sig'')) (Inr ()))
     = [\<lparr>command = ''sign_document'',
         args = [(''documentPath'', Str ''a.txt''), (''keyId'', Str ''k1''),
                 (''password'', Str ''pw''), (''outputPath'', Str ''a.txt.sig''),
                 (''options'', Opts \<lparr>format = detached\<rparr>)]\<rparr>]
   \<and> sent (signDocument
      \<lparr>SignView.keys = [], selectedKeyId = Some ''k1'', documentPath = Some ''a.txt'',
       password = ''pw'', loadingKeys = False, signing = False, error = None,
       successMessage = None\<rparr> (Inr None) (Inr ())) = []"
  using signDocument_request_complete [of
      "\<lparr>SignView.keys = [], selectedKeyId = Some ''k1'', documentPath = Some ''a.txt'',
       password = ''pw'', loadingKeys = False, signing = False, error = None,
       successMessage = None\<rparr>" "Inr (Some ''a.txt.sig'')" "Inr ()"]
    signDocument_request_complete [of
      "\<lparr>SignView.keys = [], selectedKeyId = Some ''k1'', documentPath = Some ''a.txt'',
       password = ''pw'', loadingKeys = False, signing = False, error = None,
       successMessage = None\<rparr>" "Inr None" "Inr ()"]
  by (simp add: signDocument_def sign_request_def falsy_def)

text \<open>
  Claim C10. Once the request has been sent: when it resolves, the password is the empty
  string and the document path and the selected key are unchanged; when it fails, the
  password, the document path and the selected key are unchanged, the error holds the
  failure message, and the only other changes are those every run makes (no success
  message, \<^verbatim>\<open>signing\<close> false again).
\<close>

theorem signDocument_frame:
  assumes "\<not> falsy (SignView.documentPath st)" and "\<not> falsy (SignView.selectedKeyId st)"
    and "SignView.password st \<noteq> []" and "\<not> falsy outputPath"
  shows "sent (signDocument st (Inr outputPath) reply)
           = [sign_request (st\<lparr>signing := True, SignView.error := None, successMessage := None\<rparr>)
                outputPath]
     \<and> (reply = Inr () \<longrightarrow>
          SignView.password (final (signDocument st (Inr outputPath) reply)) = [] \<and>
          SignView.documentPath (final (signDocument st (Inr outputPath) reply))
            = SignView.documentPath st \<and>
          SignView.selectedKeyId (final (signDocument st (Inr outputPath) reply))
            = SignView.selectedKeyId st)
     \<and> (\<forall>e. reply = Inl e \<longrightarrow>
          SignView.password (final (signDocument st (Inr outputPath) reply))
            = SignView.password st \<and>
          SignView.documentPath (final (signDocument st (Inr outputPath) reply))
            = SignView.documentPath st \<and>
          SignView.selectedKeyId (final (signDocument st (Inr outputPath) reply))
            = SignView.selectedKeyId st \<and>
          final (signDocument st (Inr outputPath) reply)
            = st\<lparr>signing := False, SignView.error := Some (''Signing failed: '' @ err_text e),
                  successMessage := None\<rparr>)"
  using assms by (cases reply) (simp_all add: signDocument_def Let_def)

theorem signDocument_frame_witness:
  "SignView.password (final (signDocument
      \<lparr>SignView.keys = [], selectedKeyId = Some ''k1'', documentPath = Some ''a.txt'',
       password = ''pw'', loadingKeys = False, signing = False, error = None,
       successMessage = None\<rparr> (Inr (Some ''a.txt.sig'')) (Inr ()))) = []
   \<and> SignView.password (final (signDocument
      \<lparr>SignView.keys = [], selectedKeyId = Some ''k1'', documentPath = Some ''a.txt'',
       password = ''pw'', loadingKeys = False, signing = False, error = None,
       successMessage = None\<rparr> (Inr (Some ''a.txt.sig'')) (Inl (JsError ''Invalid password''))))
     = ''pw''"
  using signDocument_frame [of
      "\<lparr>SignView.keys = [], selectedKeyId = Some ''k1'', documentPath = Some ''a.txt'',
       password = ''pw'', loadingKeys = False, signing = False, error = None,
       successMessage = None\<rparr>" "Some ''a.txt.sig''" "Inr ()"]
    signDocument_frame [of
      "\<lparr>SignView.keys = [], selectedKeyId = Some ''k1'', documentPath = Some ''a.txt'',
       password = ''pw'', loadingKeys = False, signing = False, error = None,
       successMessage = None\<rparr>" "Some ''a.txt.sig''" "Inl (JsError ''Invalid password'')"]
  by (simp add: falsy_def)

section \<open>The requests of the verification view\<close>

text \<open>
  Claim C6. Every \<^verbatim>\<open>verify_signature\<close> request supplies exactly \<^verbatim>\<open>documentPath\<close>,
  \<^verbatim>\<open>signaturePath\<close> and \<^verbatim>\<open>keyId\<close>, taken from the state of the view, and no password;
  the other request of the view, \<^verbatim>\<open>list_keys\<close>, has no input at all.
\<close>

theorem verify_request_has_no_password:
  "(\<forall>r\<in>set (sent (verify st reply)).
      command r = ''verify_signature'' \<and>
      args r = [(''documentPath'', of_nullable (VerifyView.documentPath st)),
                (''signaturePath'', of_nullable (signaturePath st)),
                (''keyId'', of_nullable (VerifyView.selectedKeyId st))] \<and>
      map fst (args r) = [''documentPath'', ''signaturePath'', ''keyId''] \<and>
      map_of (args r) ''password'' = None)
   \<and> (\<forall>r\<in>set (sent (VerifyView_loadKeys st keys_reply)). args r = [])"
proof (intro conjI ballI)
  fix r assume "r \<in> set (sent (verify st reply))"
  then have r: "r = verify_request
      (st\<lparr>verifying := True, VerifyView.error := None, verificationResult := None\<rparr>)"
    by (cases reply) (auto simp: verify_def Let_def split: if_splits)
  show "command r = ''verify_signature''"
    by (simp add: r verify_request_def)
  show a: "args r = [(''documentPath'', of_nullable (VerifyView.documentPath st)),
                (''signaturePath'', of_nullable (signaturePath st)),
                (''keyId'', of_nullable (VerifyView.selectedKeyId st))]"
    by (simp add: r verify_request_def)
  show "map fst (args r) = [''documentPath'', ''signaturePath'', ''keyId'']"
    by (simp add: a)
  show "map_of (args r) ''password'' = None"
    by (simp add: a)
next
  fix r assume "r \<in> set (sent (VerifyView_loadKeys st keys_reply))"
  then show "args r = []"
    by (cases keys_reply) (auto simp: VerifyView_loadKeys_def Let_def list_keys_request_def)
qed

theorem verify_request_has_no_password_witness:
  "sent (verify
      \<lparr>VerifyView.keys = [], selectedKeyId = Some ''k1'', documentPath = Some ''a.txt'',
       signaturePath = Some ''a.txt.sig'', loadingKeys = False, verifying = False,
       error = None, verificationResult = None\<rparr>
      (Inr \<lparr>isValid = True, errorMessage = None\<rparr>))
     = [\<lparr>command = ''verify_signature'',
         args = [(''documentPath'', Str ''a.txt''), (''signaturePath'', Str ''a.txt.sig''),
                 (''keyId'', Str ''k1'')]\<rparr>]
   \<and> sent (VerifyView_loadKeys
      \<lparr>VerifyView.keys = [], selectedKeyId = None, documentPath = None,
       signaturePath = None, loadingKeys = True, verifying = False,
       error = None, verificationResult = None\<rparr> (Inr []))
     = [\<lparr>command = ''list_keys'', args = []\<rparr>]"
  using verify_request_has_no_password [of
      "\<lparr>VerifyView.keys = [], selectedKeyId = Some ''k1'', documentPath = Some ''a.txt'',
       signaturePath = Some ''a.txt.sig'', loadingKeys = False, verifying = False,
       error = None, verificationResult = None\<rparr>"
      "Inr \<lparr>isValid = True, errorMessage = None\<rparr>" "Inr []"]
  by (simp add: verify_def verify_request_def falsy_def VerifyView_loadKeys_def
      list_keys_request_def)

section \<open>Selection of the first key\<close>

text \<open>
  Claim C9. In both views, when the keys are loaded, the list is not empty and no key is
  selected, the effect selects the \<^verbatim>\<open>keyId\<close> of the first key and changes nothing else; in
  the verification view, when the keys are loaded and the list is empty, the effect resets
  the selection to null. So whenever the keys are loaded and the list is not empty, and in
  particular after \<^verbatim>\<open>loadKeys\<close>, the selection is not null once the effect has run.
\<close>

theorem effects_select_first_key:
  "(\<not> SignView.loadingKeys s \<and> SignView.keys s \<noteq> [] \<and> SignView.selectedKeyId s = None \<longrightarrow>
      SignView_effect s = s\<lparr>SignView.selectedKeyId := Some (keyId (hd (SignView.keys s)))\<rparr>)
   \<and> (\<not> VerifyView.loadingKeys v \<and> VerifyView.keys v \<noteq> [] \<and> VerifyView.selectedKeyId v = None \<longrightarrow>
      VerifyView_effect v = v\<lparr>VerifyView.selectedKeyId := Some (keyId (hd (VerifyView.keys v)))\<rparr>)
   \<and> (\<not> VerifyView.loadingKeys v \<and> VerifyView.keys v = [] \<longrightarrow>
      VerifyView_effect v = v\<lparr>VerifyView.selectedKeyId := None\<rparr>)
   \<and> (\<not> SignView.loadingKeys s \<and> SignView.keys s \<noteq> [] \<longrightarrow>
      SignView.selectedKeyId (SignView_effect s) \<noteq> None)
   \<and> (\<not> VerifyView.loadingKeys v \<and> VerifyView.keys v \<noteq> [] \<longrightarrow>
      VerifyView.selectedKeyId (VerifyView_effect v) \<noteq> None)
   \<and> (SignView.keys (SignView_effect (final (SignView_loadKeys s sreply))) \<noteq> [] \<longrightarrow>
      SignView.selectedKeyId (SignView_effect (final (SignView_loadKeys s sreply))) \<noteq> None)
   \<and> (VerifyView.keys (VerifyView_effect (final (VerifyView_loadKeys v vreply))) \<noteq> [] \<longrightarrow>
      VerifyView.selectedKeyId (VerifyView_effect (final (VerifyView_loadKeys v vreply))) \<noteq> None)"
proof (intro conjI impI)
  assume "\<not> SignView.loadingKeys s \<and> SignView.keys s \<noteq> [] \<and> SignView.selectedKeyId s = None"
  then show "SignView_effect s = s\<lparr>SignView.selectedKeyId := Some (keyId (hd (SignView.keys s)))\<rparr>"
    by (simp add: SignView_effect_def hd_conv_nth)
next
  assume "\<not> VerifyView.loadingKeys v \<and> VerifyView.keys v \<noteq> [] \<and> VerifyView.selectedKeyId v = None"
  then show "VerifyView_effect v = v\<lparr>VerifyView.selectedKeyId := Some (keyId (hd (VerifyView.keys v)))\<rparr>"
    by (simp add: VerifyView_effect_def Let_def hd_conv_nth)
next
  assume "\<not> VerifyView.loadingKeys v \<and> VerifyView.keys v = []"
  then show "VerifyView_effect v = v\<lparr>VerifyView.selectedKeyId := None\<rparr>"
    by (simp add: VerifyView_effect_def Let_def)
next
  assume "\<not> SignView.loadingKeys s \<and> SignView.keys s \<noteq> []"
  then show "SignView.selectedKeyId (SignView_effect s) \<noteq> None"
    by (simp add: SignView_effect_selected)
next
  assume "\<not> VerifyView.loadingKeys v \<and> VerifyView.keys v \<noteq> []"
  then show "VerifyView.selectedKeyId (VerifyView_effect v) \<noteq> None"
    by (simp add: VerifyView_effect_selected)
next
  assume "SignView.keys (SignView_effect (final (SignView_loadKeys s sreply))) \<noteq> []"
  then have "SignView.keys (final (SignView_loadKeys s sreply)) \<noteq> []"
    by (simp add: SignView_effect_keys)
  then show "SignView.selectedKeyId (SignView_effect (final (SignView_loadKeys s sreply))) \<noteq> None"
    using SignView_loadKeys_done [of s sreply] by (intro SignView_effect_selected)
next
  assume "VerifyView.keys (VerifyView_effect (final (VerifyView_loadKeys v vreply))) \<noteq> []"
  then have "VerifyView.keys (final (VerifyView_loadKeys v vreply)) \<noteq> []"
    by (simp add: VerifyView_effect_keys)
  then show "VerifyView.selectedKeyId (VerifyView_effect (final (VerifyView_loadKeys v vreply))) \<noteq> None"
    using VerifyView_loadKeys_done [of v vreply] by (intro VerifyView_effect_selected)
qed

theorem effects_select_first_key_witness:
  "SignView.selectedKeyId (SignView_effect
      \<lparr>SignView.keys = [\<lparr>keyId = ''k1'', name = ''a'', algorithm = ''Ed25519'', createdAt = ''t1''\<rparr>,
                        \<lparr>keyId = ''k2'', name = ''b'', algorithm = ''Ed25519'', createdAt = ''t2''\<rparr>],
       selectedKeyId = None, documentPath = None, password = [], loadingKeys = False,
       signing = False, error = None, successMessage = None\<rparr>) = Some ''k1''
   \<and> VerifyView.selectedKeyId (VerifyView_effect
      \<lparr>VerifyView.keys = [], selectedKeyId = Some ''k9'', documentPath = None,
       signaturePath = None, loadingKeys = False, verifying = False,
       error = None, verificationResult = None\<rparr>) = None
   \<and> VerifyView.selectedKeyId (VerifyView_effect
      \<lparr>VerifyView.keys = [\<lparr>keyId = ''k2'', name = ''b'', algorithm = ''Ed25519'', createdAt = ''t2''\<rparr>],
       selectedKeyId = None, documentPath = None,
       signaturePath = None, loadingKeys = False, verifying = False,
       error = None, verificationResult = None\<rparr>) = Some ''k2''
   \<and> SignView.selectedKeyId (SignView_effect (final (SignView_loadKeys
      \<lparr>SignView.keys = [\<lparr>keyId = ''k1'', name = ''a'', algorithm = ''Ed25519'', createdAt = ''t1''\<rparr>,
                        \<lparr>keyId = ''k2'', name = ''b'', algorithm = ''Ed25519'', createdAt = ''t2''\<rparr>],
       selectedKeyId = None, documentPath = None, password = [], loadingKeys = False,
       signing = False, error = None, successMessage = None\<rparr>
      (Inr [\<lparr>keyId = ''k2'', name = ''b'', algorithm = ''Ed25519'', createdAt = ''t2''\<rparr>])))) \<noteq> None
   \<and> VerifyView.selectedKeyId (VerifyView_effect (final (VerifyView_loadKeys
      \<lparr>VerifyView.keys = [\<lparr>keyId = ''k2'', name = ''b'', algorithm = ''Ed25519'', createdAt = ''t2''\<rparr>],
       selectedKeyId = None, documentPath = None,
       signaturePath = None, loadingKeys = False, verifying = False,
       error = None, verificationResult = None\<rparr>
      (Inr [\<lparr>keyId = ''k1'', name = ''a'', algorithm = ''Ed25519'', createdAt = ''t1''\<rparr>])))) \<noteq> None"
  using effects_select_first_key [of
      "\<lparr>SignView.keys = [\<lparr>keyId = ''k1'', name = ''a'', algorithm = ''Ed25519'', createdAt = ''t1''\<rparr>,
                        \<lparr>keyId = ''k2'', name = ''b'', algorithm = ''Ed25519'', createdAt = ''t2''\<rparr>],
       selectedKeyId = None, documentPath = None, password = [], loadingKeys = False,
       signing = False, error = None, successMessage = None\<rparr>"
      "\<lparr>VerifyView.keys = [], selectedKeyId = Some ''k9'', documentPath = None,
       signaturePath = None, loadingKeys = False, verifying = False,
       error = None, verificationResult = None\<rparr>"
      "Inr [\<lparr>keyId = ''k2'', name = ''b'', algorithm = ''Ed25519'', createdAt = ''t2''\<rparr>]" "Inl (JsOther ''down'')"]
    effects_select_first_key [of
      "\<lparr>SignView.keys = [\<lparr>keyId = ''k1'', name = ''a'', algorithm = ''Ed25519'', createdAt = ''t1''\<rparr>,
                        \<lparr>keyId = ''k2'', name = ''b'', algorithm = ''Ed25519'', createdAt = ''t2''\<rparr>],
       selectedKeyId = None, documentPath = None, password = [], loadingKeys = False,
       signing = False, error = None, successMessage = None\<rparr>"
      "\<lparr>VerifyView.keys = [\<lparr>keyId = ''k2'', name = ''b'', algorithm = ''Ed25519'', createdAt = ''t2''\<rparr>],
       selectedKeyId = None, documentPath = None,
       signaturePath = None, loadingKeys = False, verifying = False,
       error = None, verificationResult = None\<rparr>"
      "Inr [\<lparr>keyId = ''k2'', name = ''b'', algorithm = ''Ed25519'', createdAt = ''t2''\<rparr>]"
      "Inr [\<lparr>keyId = ''k1'', name = ''a'', algorithm = ''Ed25519'', createdAt = ''t1''\<rparr>]"]
  by (simp add: SignView_loadKeys_def VerifyView_loadKeys_def Let_def falsy_def
      SignView_effect_def VerifyView_effect_def)

end
